theory Spec2Isabelle
  imports Main "HOL-Library.Word" "HOL-Library.Finite_Map"
begin

section \<open>Go values used by the IR data model\<close>

text \<open>
  The package consists of type declarations: the \<^verbatim>\<open>Value\<close> interface of package
  \<^verbatim>\<open>values\<close>, and in package \<^verbatim>\<open>ir\<close> the \<^verbatim>\<open>Instruction\<close> interface, one
  struct per instruction, two integer-backed predicate types with their constant
  blocks, and the marker methods \<^verbatim>\<open>isInst\<close>.

  Go's \<^verbatim>\<open>int\<close> is modelled at its 64-bit width. A value of an interface type is
  either nil or a dynamic value: \<open>None\<close> is nil. \<open>'ty\<close> stands for the dynamic values
  of \<^verbatim>\<open>types.Type\<close>, \<open>'v\<close> for those of \<^verbatim>\<open>values.Value\<close>; both interfaces are
  implemented outside this package.
\<close>

type_synonym go_int = "64 word"

type_synonym 'a iface = "'a option"

text \<open>
  A slice \<^verbatim>\<open>[]int\<close> is the list of its elements; the nil slice has no elements.
  A map \<^verbatim>\<open>map[string]values.Value\<close> is nil (\<open>None\<close>) or a finite map.
\<close>

type_synonym 'v go_map = "(string, 'v iface) fmap option"

datatype panic = AssignToNilMap

subsection \<open>Built-in map operations\<close>

text \<open>\<^verbatim>\<open>v, ok := m[k]\<close>: a missing key, and any key of a nil map, reads as the zero
  value with \<^verbatim>\<open>ok == false\<close>.\<close>

definition go_map_index :: "'v go_map \<Rightarrow> string \<Rightarrow> 'v iface \<times> bool" where
  "go_map_index m k =
     (case m of
        None \<Rightarrow> (None, False)
      | Some fm \<Rightarrow> (case fmlookup fm k of None \<Rightarrow> (None, False) | Some v \<Rightarrow> (v, True)))"

text \<open>\<^verbatim>\<open>m[k] = v\<close>: panics on a nil map, otherwise sets the entry of \<^verbatim>\<open>k\<close>.\<close>

definition go_map_assign :: "'v go_map \<Rightarrow> string \<Rightarrow> 'v iface \<Rightarrow> panic + 'v go_map" where
  "go_map_assign m k v =
     (case m of None \<Rightarrow> Inl AssignToNilMap | Some fm \<Rightarrow> Inr (Some (fmupd k v fm)))"

text \<open>\<^verbatim>\<open>len(m)\<close>: the number of entries; 0 for a nil map.\<close>

definition go_map_len :: "'v go_map \<Rightarrow> nat" where
  "go_map_len m = (case m of None \<Rightarrow> 0 | Some fm \<Rightarrow> fcard (fmdom fm))"

text \<open>A map literal \<^verbatim>\<open>map[string]values.Value{k1: v1, ...}\<close>: a fresh map into which
  the pairs are stored from left to right, so that of two pairs with equal keys the
  later one stays.\<close>

definition go_map_lit :: "(string \<times> 'v iface) list \<Rightarrow> 'v go_map" where
  "go_map_lit kvs = Some (fold (\<lambda>(k, v). fmupd k v) kvs fmempty)"

section \<open>Predicates\<close>

text \<open>\<^verbatim>\<open>type IntPredicate int\<close> and \<^verbatim>\<open>type FloatPredicate int\<close>: two distinct named
  integer types.\<close>

datatype IntPredicate = IntPredicate go_int

datatype FloatPredicate = FloatPredicate go_int

text \<open>
  A constant block \<^verbatim>\<open>const ( A T = iota; B; C ... )\<close>: \<^verbatim>\<open>iota\<close> is the index of the
  constant specification in the block, starting at 0, and the following lines repeat
  the first expression.
\<close>

fun iota_block :: "nat \<Rightarrow> string list \<Rightarrow> (string \<times> go_int) list" where
  "iota_block i [] = []"
| "iota_block i (c # cs) = (c, of_nat i) # iota_block (Suc i) cs"

definition IntPredicate_consts :: "(string \<times> IntPredicate) list" where
  "IntPredicate_consts =
     map (\<lambda>(c, i). (c, IntPredicate i))
       (iota_block 0
         [''IntEq'', ''IntNe'', ''IntUgt'', ''IntUge'', ''IntUlt'', ''IntUle'',
          ''IntSgt'', ''IntSge'', ''IntSlt'', ''IntSle''])"

definition FloatPredicate_consts :: "(string \<times> FloatPredicate) list" where
  "FloatPredicate_consts =
     map (\<lambda>(c, i). (c, FloatPredicate i))
       (iota_block 0
         [''FloatFalse'', ''FloatOeq'', ''FloatOgt'', ''FloatOge'', ''FloatOlt'',
          ''FloatOle'', ''FloatOne'', ''FloatOrd'', ''FloatUeq'', ''FloatUgt'',
          ''FloatUge'', ''FloatUlt'', ''FloatUle'', ''FloatUne'', ''FloatUno'',
          ''FloatTrue''])"

text \<open>The value a declared constant denotes.\<close>

definition const_val :: "(string \<times> 'a) list \<Rightarrow> string \<Rightarrow> 'a" where
  "const_val blk c = the (map_of blk c)"

definition IntEq :: IntPredicate where "IntEq = const_val IntPredicate_consts ''IntEq''"
definition IntNe :: IntPredicate where "IntNe = const_val IntPredicate_consts ''IntNe''"
definition IntUgt :: IntPredicate where "IntUgt = const_val IntPredicate_consts ''IntUgt''"
definition IntUge :: IntPredicate where "IntUge = const_val IntPredicate_consts ''IntUge''"
definition IntUlt :: IntPredicate where "IntUlt = const_val IntPredicate_consts ''IntUlt''"
definition IntUle :: IntPredicate where "IntUle = const_val IntPredicate_consts ''IntUle''"
definition IntSgt :: IntPredicate where "IntSgt = const_val IntPredicate_consts ''IntSgt''"
definition IntSge :: IntPredicate where "IntSge = const_val IntPredicate_consts ''IntSge''"
definition IntSlt :: IntPredicate where "IntSlt = const_val IntPredicate_consts ''IntSlt''"
definition IntSle :: IntPredicate where "IntSle = const_val IntPredicate_consts ''IntSle''"

definition FloatFalse :: FloatPredicate where
  "FloatFalse = const_val FloatPredicate_consts ''FloatFalse''"
definition FloatOeq :: FloatPredicate where
  "FloatOeq = const_val FloatPredicate_consts ''FloatOeq''"
definition FloatOgt :: FloatPredicate where
  "FloatOgt = const_val FloatPredicate_consts ''FloatOgt''"
definition FloatOge :: FloatPredicate where
  "FloatOge = const_val FloatPredicate_consts ''FloatOge''"
definition FloatOlt :: FloatPredicate where
  "FloatOlt = const_val FloatPredicate_consts ''FloatOlt''"
definition FloatOle :: FloatPredicate where
  "FloatOle = const_val FloatPredicate_consts ''FloatOle''"
definition FloatOne :: FloatPredicate where
  "FloatOne = const_val FloatPredicate_consts ''FloatOne''"
definition FloatOrd :: FloatPredicate where
  "FloatOrd = const_val FloatPredicate_consts ''FloatOrd''"
definition FloatUeq :: FloatPredicate where
  "FloatUeq = const_val FloatPredicate_consts ''FloatUeq''"
definition FloatUgt :: FloatPredicate where
  "FloatUgt = const_val FloatPredicate_consts ''FloatUgt''"
definition FloatUge :: FloatPredicate where
  "FloatUge = const_val FloatPredicate_consts ''FloatUge''"
definition FloatUlt :: FloatPredicate where
  "FloatUlt = const_val FloatPredicate_consts ''FloatUlt''"
definition FloatUle :: FloatPredicate where
  "FloatUle = const_val FloatPredicate_consts ''FloatUle''"
definition FloatUne :: FloatPredicate where
  "FloatUne = const_val FloatPredicate_consts ''FloatUne''"
definition FloatUno :: FloatPredicate where
  "FloatUno = const_val FloatPredicate_consts ''FloatUno''"
definition FloatTrue :: FloatPredicate where
  "FloatTrue = const_val FloatPredicate_consts ''FloatTrue''"

section \<open>Instruction nodes\<close>

text \<open>
  One constructor per struct of package \<^verbatim>\<open>ir\<close>, with the struct's fields in their
  declared order; the selectors carry the field names. \<^verbatim>\<open>IcmpInst\<close> and
  \<^verbatim>\<open>FcmpInst\<close> both name their first field \<^verbatim>\<open>Pred\<close>, at two different types, so the
  selector of the second is \<open>FPred\<close>.
\<close>

datatype ('ty, 'v) node =
    AddInst (Type: "'ty iface") (Op1: "'v iface") (Op2: "'v iface")
  | FaddInst (Type: "'ty iface") (Op1: "'v iface") (Op2: "'v iface")
  | SubInst (Type: "'ty iface") (Op1: "'v iface") (Op2: "'v iface")
  | FsubInst (Type: "'ty iface") (Op1: "'v iface") (Op2: "'v iface")
  | MulInst (Type: "'ty iface") (Op1: "'v iface") (Op2: "'v iface")
  | FmulInst (Type: "'ty iface") (Op1: "'v iface") (Op2: "'v iface")
  | UdivInst (Type: "'ty iface") (Op1: "'v iface") (Op2: "'v iface")
  | SdivInst (Type: "'ty iface") (Op1: "'v iface") (Op2: "'v iface")
  | FdivInst (Type: "'ty iface") (Op1: "'v iface") (Op2: "'v iface")
  | UremInst (Type: "'ty iface") (Op1: "'v iface") (Op2: "'v iface")
  | SremInst (Type: "'ty iface") (Op1: "'v iface") (Op2: "'v iface")
  | FremInst (Type: "'ty iface") (Op1: "'v iface") (Op2: "'v iface")
  | ShlInst (Type: "'ty iface") (Op1: "'v iface") (Op2: "'v iface")
  | LshrInst (Type: "'ty iface") (Op1: "'v iface") (Op2: "'v iface")
  | AshrInst (Type: "'ty iface") (Op1: "'v iface") (Op2: "'v iface")
  | AndInst (Type: "'ty iface") (Op1: "'v iface") (Op2: "'v iface")
  | OrInst (Type: "'ty iface") (Op1: "'v iface") (Op2: "'v iface")
  | XorInst (Type: "'ty iface") (Op1: "'v iface") (Op2: "'v iface")
  | AllocaInst (Type: "'ty iface") (NumElems: go_int) (Align: go_int)
  | LoadInst (Type: "'ty iface") (Addr: "'v iface") (Align: go_int)
  | StoreInst (Type: "'ty iface") (Val: "'v iface") (Addr: "'v iface") (Align: go_int)
  | GetelementptrInst (Type: "'ty iface") (Ptr: "'v iface") (Indicies: "go_int list")
  | IcmpInst (Pred: IntPredicate) (Type: "'ty iface") (Op1: "'v iface") (Op2: "'v iface")
  | FcmpInst (FPred: FloatPredicate) (Type: "'ty iface") (Op1: "'v iface") (Op2: "'v iface")
  | PhiInst (Type: "'ty iface") (Preds: "'v go_map")

section \<open>Methods and interfaces\<close>

text \<open>
  The only methods the package declares are the markers
  \<^verbatim>\<open>func (AddInst) isInst() {}\<close> ... \<^verbatim>\<open>func (FremInst) isInst() {}\<close>. Each has a
  value receiver and an empty body: the call returns, and the receiver is as it was.
\<close>

definition isInst :: "('ty, 'v) node \<Rightarrow> panic + ('ty, 'v) node" where
  "isInst recv = Inr recv"

text \<open>The methods declared with the node's struct as receiver, by name.\<close>

fun methods :: "('ty, 'v) node \<Rightarrow> (string \<times> (('ty, 'v) node \<Rightarrow> panic + ('ty, 'v) node)) list" where
  "methods (AddInst t a b) = [(''isInst'', isInst)]"
| "methods (FaddInst t a b) = [(''isInst'', isInst)]"
| "methods (SubInst t a b) = [(''isInst'', isInst)]"
| "methods (FsubInst t a b) = [(''isInst'', isInst)]"
| "methods (MulInst t a b) = [(''isInst'', isInst)]"
| "methods (FmulInst t a b) = [(''isInst'', isInst)]"
| "methods (UdivInst t a b) = [(''isInst'', isInst)]"
| "methods (SdivInst t a b) = [(''isInst'', isInst)]"
| "methods (FdivInst t a b) = [(''isInst'', isInst)]"
| "methods (UremInst t a b) = [(''isInst'', isInst)]"
| "methods (SremInst t a b) = [(''isInst'', isInst)]"
| "methods (FremInst t a b) = [(''isInst'', isInst)]"
| "methods n = []"

definition method_set :: "('ty, 'v) node \<Rightarrow> string list" where
  "method_set n = map fst (methods n)"

text \<open>A method call \<^verbatim>\<open>n.m()\<close>: \<open>None\<close> where the node's type declares no method
  \<^verbatim>\<open>m\<close> (such a call does not compile).\<close>

definition call :: "string \<Rightarrow> ('ty, 'v) node \<Rightarrow> (panic + ('ty, 'v) node) option" where
  "call m n = (case map_of (methods n) m of None \<Rightarrow> None | Some body \<Rightarrow> Some (body n))"

text \<open>
  \<^verbatim>\<open>values.Value\<close> embeds \<^verbatim>\<open>fmt.Stringer\<close> (method \<^verbatim>\<open>String\<close>) and adds \<^verbatim>\<open>Type\<close>;
  \<^verbatim>\<open>ir.Instruction\<close> has the single method \<^verbatim>\<open>isInst\<close>. A type implements an
  interface when its method set has every method of the interface.
\<close>

definition Value_methods :: "string list" where
  "Value_methods = [''String'', ''Type'']"

definition Instruction_methods :: "string list" where
  "Instruction_methods = [''isInst'']"

definition implements :: "('ty, 'v) node \<Rightarrow> string list \<Rightarrow> bool" where
  "implements n iface = list_all (\<lambda>m. m \<in> set (method_set n)) iface"

section \<open>Field selection and composite literals\<close>

text \<open>A selector expression \<^verbatim>\<open>n.F\<close> reads field \<^verbatim>\<open>F\<close>; it yields the value and the
  node it was read from.\<close>

definition select :: "(('ty, 'v) node \<Rightarrow> 'a) \<Rightarrow> ('ty, 'v) node \<Rightarrow> panic + (('ty, 'v) node \<times> 'a)" where
  "select F n = Inr (n, F n)"

text \<open>
  A composite literal \<^verbatim>\<open>T{F1: v1, ...}\<close> may leave any field out (\<open>None\<close>); a field
  left out has the zero value of its type: nil for an interface, a slice and a map,
  0 for an integer.
\<close>

datatype ('ty, 'v) literal =
    AddInst_lit "'ty iface option" "'v iface option" "'v iface option"
  | FaddInst_lit "'ty iface option" "'v iface option" "'v iface option"
  | SubInst_lit "'ty iface option" "'v iface option" "'v iface option"
  | FsubInst_lit "'ty iface option" "'v iface option" "'v iface option"
  | MulInst_lit "'ty iface option" "'v iface option" "'v iface option"
  | FmulInst_lit "'ty iface option" "'v iface option" "'v iface option"
  | UdivInst_lit "'ty iface option" "'v iface option" "'v iface option"
  | SdivInst_lit "'ty iface option" "'v iface option" "'v iface option"
  | FdivInst_lit "'ty iface option" "'v iface option" "'v iface option"
  | UremInst_lit "'ty iface option" "'v iface option" "'v iface option"
  | SremInst_lit "'ty iface option" "'v iface option" "'v iface option"
  | FremInst_lit "'ty iface option" "'v iface option" "'v iface option"
  | ShlInst_lit "'ty iface option" "'v iface option" "'v iface option"
  | LshrInst_lit "'ty iface option" "'v iface option" "'v iface option"
  | AshrInst_lit "'ty iface option" "'v iface option" "'v iface option"
  | AndInst_lit "'ty iface option" "'v iface option" "'v iface option"
  | OrInst_lit "'ty iface option" "'v iface option" "'v iface option"
  | XorInst_lit "'ty iface option" "'v iface option" "'v iface option"
  | AllocaInst_lit "'ty iface option" "go_int option" "go_int option"
  | LoadInst_lit "'ty iface option" "'v iface option" "go_int option"
  | StoreInst_lit "'ty iface option" "'v iface option" "'v iface option" "go_int option"
  | GetelementptrInst_lit "'ty iface option" "'v iface option" "go_int list option"
  | IcmpInst_lit "IntPredicate option" "'ty iface option" "'v iface option" "'v iface option"
  | FcmpInst_lit "FloatPredicate option" "'ty iface option" "'v iface option" "'v iface option"
  | PhiInst_lit "'ty iface option" "'v go_map option"

definition field_or :: "'a \<Rightarrow> 'a option \<Rightarrow> 'a" where
  "field_or zero given = (case given of None \<Rightarrow> zero | Some x \<Rightarrow> x)"

text \<open>Evaluating a composite literal. The package declares no constructor function and
  no check: every literal yields its node.\<close>

fun construct :: "('ty, 'v) literal \<Rightarrow> panic + ('ty, 'v) node" where
  "construct (AddInst_lit t a b) =
     Inr (AddInst (field_or None t) (field_or None a) (field_or None b))"
| "construct (FaddInst_lit t a b) =
     Inr (FaddInst (field_or None t) (field_or None a) (field_or None b))"
| "construct (SubInst_lit t a b) =
     Inr (SubInst (field_or None t) (field_or None a) (field_or None b))"
| "construct (FsubInst_lit t a b) =
     Inr (FsubInst (field_or None t) (field_or None a) (field_or None b))"
| "construct (MulInst_lit t a b) =
     Inr (MulInst (field_or None t) (field_or None a) (field_or None b))"
| "construct (FmulInst_lit t a b) =
     Inr (FmulInst (field_or None t) (field_or None a) (field_or None b))"
| "construct (UdivInst_lit t a b) =
     Inr (UdivInst (field_or None t) (field_or None a) (field_or None b))"
| "construct (SdivInst_lit t a b) =
     Inr (SdivInst (field_or None t) (field_or None a) (field_or None b))"
| "construct (FdivInst_lit t a b) =
     Inr (FdivInst (field_or None t) (field_or None a) (field_or None b))"
| "construct (UremInst_lit t a b) =
     Inr (UremInst (field_or None t) (field_or None a) (field_or None b))"
| "construct (SremInst_lit t a b) =
     Inr (SremInst (field_or None t) (field_or None a) (field_or None b))"
| "construct (FremInst_lit t a b) =
     Inr (FremInst (field_or None t) (field_or None a) (field_or None b))"
| "construct (ShlInst_lit t a b) =
     Inr (ShlInst (field_or None t) (field_or None a) (field_or None b))"
| "construct (LshrInst_lit t a b) =
     Inr (LshrInst (field_or None t) (field_or None a) (field_or None b))"
| "construct (AshrInst_lit t a b) =
     Inr (AshrInst (field_or None t) (field_or None a) (field_or None b))"
| "construct (AndInst_lit t a b) =
     Inr (AndInst (field_or None t) (field_or None a) (field_or None b))"
| "construct (OrInst_lit t a b) =
     Inr (OrInst (field_or None t) (field_or None a) (field_or None b))"
| "construct (XorInst_lit t a b) =
     Inr (XorInst (field_or None t) (field_or None a) (field_or None b))"
| "construct (AllocaInst_lit t k al) =
     Inr (AllocaInst (field_or None t) (field_or 0 k) (field_or 0 al))"
| "construct (LoadInst_lit t ad al) =
     Inr (LoadInst (field_or None t) (field_or None ad) (field_or 0 al))"
| "construct (StoreInst_lit t v ad al) =
     Inr (StoreInst (field_or None t) (field_or None v) (field_or None ad) (field_or 0 al))"
| "construct (GetelementptrInst_lit t p ix) =
     Inr (GetelementptrInst (field_or None t) (field_or None p) (field_or [] ix))"
| "construct (IcmpInst_lit pr t a b) =
     Inr (IcmpInst (field_or (IntPredicate 0) pr) (field_or None t) (field_or None a)
            (field_or None b))"
| "construct (FcmpInst_lit pr t a b) =
     Inr (FcmpInst (field_or (FloatPredicate 0) pr) (field_or None t) (field_or None a)
            (field_or None b))"
| "construct (PhiInst_lit t ps) = Inr (PhiInst (field_or None t) (field_or None ps))"

section \<open>Auxiliary facts\<close>

lemma methods_cases: "methods n = [] \<or> methods n = [(''isInst'', isInst)]"
  by (cases n) simp_all

lemma call_cases: "call m n = None \<or> call m n = Some (Inr n)"
  using methods_cases [of n] by (auto simp: call_def isInst_def)

lemma implements_Instruction_iff:
  "implements n Instruction_methods \<longleftrightarrow>
     (\<exists>t a b. n \<in> {AddInst t a b, FaddInst t a b, SubInst t a b, FsubInst t a b,
        MulInst t a b, FmulInst t a b, UdivInst t a b, SdivInst t a b, FdivInst t a b,
        UremInst t a b, SremInst t a b, FremInst t a b})"
  by (cases n) (simp_all add: implements_def Instruction_methods_def method_set_def)

lemma no_node_implements_Value: "\<not> implements n Value_methods"
  using methods_cases [of n] by (auto simp add: implements_def Value_methods_def method_set_def)


lemma IntSlt_val: "IntSlt = IntPredicate 8"
  by (simp add: IntSlt_def const_val_def IntPredicate_consts_def)

lemma go_map_assign_index:
  "go_map_assign m l v = Inr m' \<Longrightarrow> go_map_index m' l = (v, True)"
  by (auto simp: go_map_assign_def go_map_index_def split: option.splits)

lemma go_map_assign_index_other:
  "go_map_assign m l v = Inr m' \<Longrightarrow> l' \<noteq> l \<Longrightarrow> go_map_index m' l' = go_map_index m l'"
  by (auto simp: go_map_assign_def go_map_index_def split: option.splits)

lemma go_map_assign_present:
  "snd (go_map_index m l) \<Longrightarrow>
     \<exists>m'. go_map_assign m l v = Inr m' \<and> go_map_len m' = go_map_len m"
  by (auto simp: go_map_assign_def go_map_index_def go_map_len_def finsert_absorb fmdomI
      split: option.splits)

lemma go_map_assign_len:
  "go_map_assign m l v = Inr m' \<Longrightarrow>
     go_map_len m' = (if snd (go_map_index m l) then go_map_len m else Suc (go_map_len m))"
  by (auto simp: go_map_assign_def go_map_index_def go_map_len_def finsert_absorb fmdomI
      fcard_finsert_if fmdom_notI split: option.splits)


lemma fold_fmupd_lookup_other:
  "k \<notin> fst ` set kvs \<Longrightarrow> fmlookup (fold (\<lambda>(k, v). fmupd k v) kvs m) k = fmlookup m k"
  by (induction kvs arbitrary: m) (auto split: prod.splits)

lemma fold_fmupd_dom:
  "fmdom (fold (\<lambda>(k, v). fmupd k v) kvs m) = fmdom m |\<union>| fset_of_list (map fst kvs)"
  by (induction kvs arbitrary: m) (auto split: prod.splits)

lemma go_map_lit_index_last:
  "k \<notin> fst ` set rest \<Longrightarrow> go_map_index (go_map_lit (kvs @ (k, x) # rest)) k = (x, True)"
  by (simp add: go_map_index_def go_map_lit_def fold_fmupd_lookup_other)

lemma go_map_lit_index_absent:
  "k \<notin> fst ` set kvs \<Longrightarrow> go_map_index (go_map_lit kvs) k = (None, False)"
  by (simp add: go_map_index_def go_map_lit_def fold_fmupd_lookup_other)

lemma go_map_lit_len: "go_map_len (go_map_lit kvs) = card (fst ` set kvs)"
  by (simp add: go_map_len_def go_map_lit_def fold_fmupd_dom fcard.rep_eq fset_of_list.rep_eq)


section \<open>The Instruction and Value interfaces\<close>

text \<open>
  C1. The claim has every binary, bitwise and comparison node satisfy the
  \<^verbatim>\<open>Instruction\<close> interface. Evaluated on the declared methods: \<^verbatim>\<open>ShlInst\<close> does
  not implement \<^verbatim>\<open>Instruction\<close>, while its sibling \<^verbatim>\<open>AddInst\<close> does. Lemma
  \<open>implements_Instruction_iff\<close> gives the twelve structs that do.
\<close>

theorem ShlInst_not_Instruction:
  "\<not> implements (ShlInst (Some ''i32'') (Some ''%a'') (Some ''%b'')) Instruction_methods
   \<and> implements (AddInst (Some ''i32'') (Some ''%a'') (Some ''%b'')) Instruction_methods"
  by (simp add: implements_def Instruction_methods_def method_set_def)

text \<open>
  C2. The claim has every instruction node implement \<^verbatim>\<open>values.Value\<close>.
  Evaluated on the declared methods: \<^verbatim>\<open>AddInst\<close> has neither \<^verbatim>\<open>String\<close> nor
  \<^verbatim>\<open>Type\<close> in its method set, so it does not implement \<^verbatim>\<open>Value\<close>. Lemma
  \<open>no_node_implements_Value\<close> shows the same of every node.
\<close>

theorem AddInst_not_Value:
  "\<not> implements (AddInst (Some ''i32'') (Some ''%a'') (Some ''%b'')) Value_methods"
  by (simp add: implements_def Value_methods_def method_set_def)

section \<open>Construction\<close>

text \<open>
  C3. The claim has \<^verbatim>\<open>NumElems\<close> read 1 after \<^verbatim>\<open>AllocaInst{Type: T}\<close>.
  Evaluated: the literal yields a node whose \<^verbatim>\<open>NumElems\<close> is the zero value 0, not 1.
\<close>

theorem AllocaInst_NumElems_unset:
  "\<exists>n. construct (AllocaInst_lit (Some (Some ''i32'')) None None) = Inr (n :: (string, string) node)
       \<and> select NumElems n = Inr (n, 0) \<and> NumElems n \<noteq> 1"
  by (simp add: field_or_def select_def)

text \<open>
  C4. The constant block of \<^verbatim>\<open>IntPredicate\<close> declares exactly ten constants,
  \<^verbatim>\<open>IntEq\<close> = 0 up to \<^verbatim>\<open>IntSle\<close> = 9 in the order Eq, Ne, Ugt, Uge, Ult, Ule, Sgt, Sge,
  Slt, Sle; the block of \<^verbatim>\<open>FloatPredicate\<close> declares exactly sixteen,
  \<^verbatim>\<open>FloatFalse\<close> = 0 up to \<^verbatim>\<open>FloatTrue\<close> = 15 in the order False, Oeq, Ogt, Oge, Olt,
  Ole, One, Ord, Ueq, Ugt, Uge, Ult, Ule, Une, Uno, True. The ordinals are contiguous.
\<close>

theorem predicate_ordinals:
  "IntPredicate_consts =
     [(''IntEq'', IntPredicate 0), (''IntNe'', IntPredicate 1), (''IntUgt'', IntPredicate 2),
      (''IntUge'', IntPredicate 3), (''IntUlt'', IntPredicate 4), (''IntUle'', IntPredicate 5),
      (''IntSgt'', IntPredicate 6), (''IntSge'', IntPredicate 7), (''IntSlt'', IntPredicate 8),
      (''IntSle'', IntPredicate 9)]
   \<and> FloatPredicate_consts =
     [(''FloatFalse'', FloatPredicate 0), (''FloatOeq'', FloatPredicate 1),
      (''FloatOgt'', FloatPredicate 2), (''FloatOge'', FloatPredicate 3),
      (''FloatOlt'', FloatPredicate 4), (''FloatOle'', FloatPredicate 5),
      (''FloatOne'', FloatPredicate 6), (''FloatOrd'', FloatPredicate 7),
      (''FloatUeq'', FloatPredicate 8), (''FloatUgt'', FloatPredicate 9),
      (''FloatUge'', FloatPredicate 10), (''FloatUlt'', FloatPredicate 11),
      (''FloatUle'', FloatPredicate 12), (''FloatUne'', FloatPredicate 13),
      (''FloatUno'', FloatPredicate 14), (''FloatTrue'', FloatPredicate 15)]
   \<and> length IntPredicate_consts = 10 \<and> length FloatPredicate_consts = 16
   \<and> [IntEq, IntNe, IntUgt, IntUge, IntUlt, IntUle, IntSgt, IntSge, IntSlt, IntSle] =
       map (\<lambda>i. IntPredicate (of_nat i)) [0..<10]
   \<and> [FloatFalse, FloatOeq, FloatOgt, FloatOge, FloatOlt, FloatOle, FloatOne, FloatOrd,
       FloatUeq, FloatUgt, FloatUge, FloatUlt, FloatUle, FloatUne, FloatUno, FloatTrue] =
       map (\<lambda>i. FloatPredicate (of_nat i)) [0..<16]"
proof -
  have I: "IntPredicate_consts =
     [(''IntEq'', IntPredicate 0), (''IntNe'', IntPredicate 1), (''IntUgt'', IntPredicate 2),
      (''IntUge'', IntPredicate 3), (''IntUlt'', IntPredicate 4), (''IntUle'', IntPredicate 5),
      (''IntSgt'', IntPredicate 6), (''IntSge'', IntPredicate 7), (''IntSlt'', IntPredicate 8),
      (''IntSle'', IntPredicate 9)]"
    by (simp add: IntPredicate_consts_def)
  have F: "FloatPredicate_consts =
     [(''FloatFalse'', FloatPredicate 0), (''FloatOeq'', FloatPredicate 1),
      (''FloatOgt'', FloatPredicate 2), (''FloatOge'', FloatPredicate 3),
      (''FloatOlt'', FloatPredicate 4), (''FloatOle'', FloatPredicate 5),
      (''FloatOne'', FloatPredicate 6), (''FloatOrd'', FloatPredicate 7),
      (''FloatUeq'', FloatPredicate 8), (''FloatUgt'', FloatPredicate 9),
      (''FloatUge'', FloatPredicate 10), (''FloatUlt'', FloatPredicate 11),
      (''FloatUle'', FloatPredicate 12), (''FloatUne'', FloatPredicate 13),
      (''FloatUno'', FloatPredicate 14), (''FloatTrue'', FloatPredicate 15)]"
    by (simp add: FloatPredicate_consts_def)
  have Ic: "[IntEq, IntNe, IntUgt, IntUge, IntUlt, IntUle, IntSgt, IntSge, IntSlt, IntSle] =
       map (\<lambda>i. IntPredicate (of_nat i)) [0..<10]"
    by (simp add: I const_val_def upt_rec IntEq_def IntNe_def IntUgt_def IntUge_def IntUlt_def
        IntUle_def IntSgt_def IntSge_def IntSlt_def IntSle_def)
  have Fc: "[FloatFalse, FloatOeq, FloatOgt, FloatOge, FloatOlt, FloatOle, FloatOne, FloatOrd,
       FloatUeq, FloatUgt, FloatUge, FloatUlt, FloatUle, FloatUne, FloatUno, FloatTrue] =
       map (\<lambda>i. FloatPredicate (of_nat i)) [0..<16]"
    by (simp add: F const_val_def upt_rec FloatFalse_def FloatOeq_def FloatOgt_def FloatOge_def
        FloatOlt_def FloatOle_def FloatOne_def FloatOrd_def FloatUeq_def FloatUgt_def
        FloatUge_def FloatUlt_def FloatUle_def FloatUne_def FloatUno_def FloatTrue_def)
  have L: "length IntPredicate_consts = 10" "length FloatPredicate_consts = 16"
    by (simp_all add: I F)
  from I F L Ic Fc show ?thesis by blast
qed

text \<open>
  C5. For every Phi node, lookup in \<^verbatim>\<open>Preds\<close> is by exact label and yields exactly
  the value stored under it. In a map literal the last pair written for a label is the
  one that is read, also when earlier pairs repeat the label; a label the literal does
  not write reads as absent; the literal has one entry per distinct label. After
  \<^verbatim>\<open>Preds[l] = v\<close> the lookup of \<^verbatim>\<open>l\<close> yields exactly \<^verbatim>\<open>v\<close>, every other label reads
  as before, and the number of entries is unchanged when \<^verbatim>\<open>l\<close> was present and one
  more when it was not: inserting under a present label replaces the entry.
\<close>

theorem Phi_Preds_lookup_insert:
  "(k \<notin> fst ` set rest \<longrightarrow>
      go_map_index (Preds (PhiInst t (go_map_lit (kvs @ (k, x) # rest)))) k = (x, True))
   \<and> (k \<notin> fst ` set lit \<longrightarrow> go_map_index (Preds (PhiInst t (go_map_lit lit))) k = (None, False))
   \<and> go_map_len (Preds (PhiInst t (go_map_lit lit))) = card (fst ` set lit)
   \<and> (go_map_assign (Preds (PhiInst t ps)) l v = Inr m' \<longrightarrow>
        go_map_index m' l = (v, True)
        \<and> (\<forall>l'. l' \<noteq> l \<longrightarrow> go_map_index m' l' = go_map_index (Preds (PhiInst t ps)) l')
        \<and> go_map_len m' =
            (if snd (go_map_index (Preds (PhiInst t ps)) l) then go_map_len (Preds (PhiInst t ps))
             else Suc (go_map_len (Preds (PhiInst t ps)))))
   \<and> (snd (go_map_index (Preds (PhiInst t ps)) l) \<longrightarrow>
        (\<exists>m''. go_map_assign (Preds (PhiInst t ps)) l v = Inr m''
           \<and> go_map_index m'' l = (v, True)
           \<and> go_map_len m'' = go_map_len (Preds (PhiInst t ps))))"
proof -
  have "snd (go_map_index ps l) \<longrightarrow>
      (\<exists>m''. go_map_assign ps l v = Inr m'' \<and> go_map_index m'' l = (v, True)
         \<and> go_map_len m'' = go_map_len ps)"
    using go_map_assign_present [of ps l v] go_map_assign_index [of ps l v] by blast
  then show ?thesis
    using go_map_assign_index [of ps l v m'] go_map_assign_index_other [of ps l v m']
      go_map_assign_len [of ps l v m'] go_map_lit_index_last [of k rest kvs x]
      go_map_lit_index_absent [of k lit] go_map_lit_len [of lit]
    by simp
qed

theorem Phi_Preds_lookup_insert_witness:
  "go_map_index (Preds (PhiInst (Some ''i32'')
       (go_map_lit [(''bb1'', Some ''%v1''), (''bb2'', Some ''%v2''), (''bb2'', Some ''%v3'')])))
       ''bb2'' = (Some ''%v3'', True)
   \<and> go_map_index (Preds (PhiInst (Some ''i32'')
       (go_map_lit [(''bb1'', Some ''%v1''), (''bb2'', Some ''%v2''), (''bb2'', Some ''%v3'')])))
       ''bb3'' = (None, False)
   \<and> go_map_len (Preds (PhiInst (Some ''i32'')
       (go_map_lit [(''bb1'', Some ''%v1''), (''bb2'', Some ''%v2''), (''bb2'', Some ''%v3'')]))) = 2
   \<and> go_map_index (go_map_lit [(''bb1'', Some ''%v1''), (''bb2'', Some ''%v2'')]) ''bb1'' =
       (Some ''%v1'', True)
   \<and> go_map_len (go_map_lit [(''bb1'', Some ''%v1''), (''bb2'', Some ''%v2'')]) = 2
   \<and> (\<exists>m'. go_map_assign (Preds (PhiInst (Some ''i32'')
              (go_map_lit [(''bb1'', Some ''%v1''), (''bb2'', Some ''%v2'')]))) ''bb2'' (Some ''%v3'')
            = Inr m'
          \<and> go_map_index m' ''bb2'' = (Some ''%v3'', True)
          \<and> go_map_index m' ''bb1'' = (Some ''%v1'', True)
          \<and> go_map_len m' = 2)"
proof -
  have absent: "''bb2'' \<notin> fst ` set ([] :: (string \<times> string iface) list)"
    "''bb3'' \<notin> fst ` set [(''bb1'', Some ''%v1''), (''bb2'', Some ''%v2''), (''bb2'', Some ''%v3'')]"
    by simp_all
  have present: "snd (go_map_index (Preds (PhiInst (Some ''i32'')
      (go_map_lit [(''bb1'', Some ''%v1''), (''bb2'', Some ''%v2'')]))) ''bb2'')"
    by (simp add: go_map_index_def go_map_lit_def)
  have card3: "card (fst ` set [(''bb1'', Some ''%v1''), (''bb2'', Some ''%v2''),
      (''bb2'', Some ''%v3'')]) = 2"
    by simp
  show ?thesis
    using absent present card3
      Phi_Preds_lookup_insert [of "''bb2''" "[]" "Some ''i32''"
        "[(''bb1'', Some ''%v1''), (''bb2'', Some ''%v2'')]" "Some ''%v3''"
        "[(''bb1'', Some ''%v1''), (''bb2'', Some ''%v2''), (''bb2'', Some ''%v3'')]"
        "go_map_lit [(''bb1'', Some ''%v1''), (''bb2'', Some ''%v2'')]" "''bb2''" "Some ''%v3''"
        "Some (fmupd ''bb2'' (Some ''%v3'')
           (fold (\<lambda>(k, v). fmupd k v) [(''bb1'', Some ''%v1''), (''bb2'', Some ''%v2'')] fmempty))"]
    by (simp add: go_map_assign_def go_map_lit_def go_map_len_def go_map_index_def
        fcard_finsert_if)
qed

text \<open>
  C6. Construction followed by field access is the identity: an \<^verbatim>\<open>AddInst\<close>
  literal with \<^verbatim>\<open>Type: T, Op1: a, Op2: b\<close> reads back \<^verbatim>\<open>T\<close>, \<^verbatim>\<open>a\<close> and \<^verbatim>\<open>b\<close>
  (whatever the types of the operands are, so in particular when both have type
  \<^verbatim>\<open>T\<close>), and an \<^verbatim>\<open>IcmpInst\<close> literal reads back the predicate it was given;
  \<^verbatim>\<open>IntSlt\<close> reads back as \<^verbatim>\<open>IntSlt\<close>, the ordinal 8.
\<close>

theorem construction_preserves_fields:
  "(\<exists>n. construct (AddInst_lit (Some T) (Some a) (Some b)) = Inr n
        \<and> select Type n = Inr (n, T) \<and> select Op1 n = Inr (n, a) \<and> select Op2 n = Inr (n, b))
   \<and> (\<exists>n. construct (IcmpInst_lit (Some p) (Some T) (Some a) (Some b)) = Inr n
        \<and> select Pred n = Inr (n, p) \<and> select Type n = Inr (n, T)
        \<and> select Op1 n = Inr (n, a) \<and> select Op2 n = Inr (n, b))
   \<and> (\<exists>n. construct (IcmpInst_lit (Some IntSlt) (Some T) (Some a) (Some b)) = Inr n
        \<and> select Pred n = Inr (n, IntSlt) \<and> Pred n = IntPredicate 8)"
  by (simp add: field_or_def select_def IntSlt_val)

text \<open>
  C7. A \<^verbatim>\<open>GetelementptrInst\<close> literal keeps the index sequence it is given, in
  length and order: \<^verbatim>\<open>Indicies: [0, 3]\<close> reads back with length 2, element 0 first
  and element 3 second.
\<close>

theorem Getelementptr_Indicies_order:
  "(\<exists>n. construct (GetelementptrInst_lit t p (Some ix)) = Inr n
        \<and> select Indicies n = Inr (n, ix) \<and> length (Indicies n) = length ix)
   \<and> (\<exists>n. construct (GetelementptrInst_lit t p (Some [0, 3])) = Inr n
        \<and> length (Indicies n) = 2 \<and> Indicies n ! 0 = 0 \<and> Indicies n ! 1 = 3)"
  by (simp add: field_or_def select_def)

section \<open>Totality and frame of the core operations\<close>




text \<open>
  C9. No core operation changes a node: after a call of the marker method
  \<^verbatim>\<open>isInst\<close> (of any declared method) the node is the one it was called on, and a
  field selection yields the field of the node and the node itself, unchanged.
\<close>

theorem core_operations_frame:
  "(call m n = Some (Inr n') \<longrightarrow> n' = n)
   \<and> (select F n = Inr (n'', x) \<longrightarrow> n'' = n \<and> x = F n)"
  using call_cases [of m n] by (auto simp: select_def)

theorem core_operations_frame_witness:
  "call ''isInst'' (AddInst (Some ''i32'') (Some ''%a'') (Some ''%b'')) =
     Some (Inr (AddInst (Some ''i32'') (Some ''%a'') (Some ''%b'')))
   \<and> select Op1 (AddInst (Some ''i32'') (Some ''%a'') (Some ''%b'')) =
       Inr (AddInst (Some ''i32'') (Some ''%a'') (Some ''%b''), Some ''%a'')"
  using core_operations_frame [of "''isInst''" "AddInst (Some ''i32'') (Some ''%a'') (Some ''%b'')"
      "AddInst (Some ''i32'') (Some ''%a'') (Some ''%b'')" Op1
      "AddInst (Some ''i32'') (Some ''%a'') (Some ''%b'')" "Some ''%a''"]
  by (simp add: call_def isInst_def select_def)

text \<open>
  C10. Every index of every constructible \<^verbatim>\<open>GetelementptrInst\<close> is a static integer
  constant. \<^verbatim>\<open>Indicies\<close> is the integer sequence the literal gives (the nil slice when
  it gives none), fixed at construction. No \<^verbatim>\<open>values.Value\<close> is an index: the values
  occurring anywhere in the node (\<open>set2_node\<close>) are those of its \<^verbatim>\<open>Ptr\<close> field alone,
  and replacing every type and every runtime value of the node by any other
  (\<open>map_node\<close>) leaves \<^verbatim>\<open>Indicies\<close> as it is.
\<close>

theorem Getelementptr_indices_static:
  "construct (GetelementptrInst_lit t p ix) = Inr n \<Longrightarrow>
     Indicies n = field_or [] ix
     \<and> set2_node n = set_option (Ptr n)
     \<and> (\<forall>f g. Indicies (map_node f g n) = Indicies n)"
  by (auto simp: field_or_def)

theorem Getelementptr_indices_static_witness:
  "construct (GetelementptrInst_lit (Some (Some ''i32'')) (Some (Some ''%p'')) (Some [0, 3])) =
      Inr (GetelementptrInst (Some ''i32'') (Some ''%p'') [0, 3])
   \<and> Indicies (GetelementptrInst (Some ''i32'') (Some ''%p'') [0, 3] :: (string, string) node) = [0, 3]
   \<and> set2_node (GetelementptrInst (Some ''i32'') (Some ''%p'') [0, 3] :: (string, string) node) =
       {''%p''}
   \<and> Indicies (map_node (\<lambda>ty. ''i64'') (\<lambda>v. ''%q'')
         (GetelementptrInst (Some ''i32'') (Some ''%p'') [0, 3] :: (string, string) node)) = [0, 3]"
proof -
  have c: "construct (GetelementptrInst_lit (Some (Some ''i32'')) (Some (Some ''%p'')) (Some [0, 3])) =
      Inr (GetelementptrInst (Some ''i32'') (Some ''%p'') [0, 3] :: (string, string) node)"
    by (simp add: field_or_def)
  from c Getelementptr_indices_static [OF c] show ?thesis
    by (simp add: field_or_def)
qed

end
